theory Spec2Isabelle
  imports Complex_Main
begin

section \<open>Numbers and strings of the JavaScript sources\<close>

text \<open>
  The sources are JavaScript. A finite IEEE double is read as the real number it denotes,
  and arithmetic on finite numbers as real arithmetic (rounding is not modelled). A number
  that may be \<open>NaN\<close> or infinite (a configured coordinate that is \<open>undefined\<close>, a division
  by zero) has type \<open>real option\<close>, with \<open>None\<close> for every non-finite value: the sources
  only ever compare such a value with \<open><\<close> after taking a distance, and that comparison is
  false for \<open>NaN\<close> and for \<open>Infinity\<close> alike. A field that is absent (\<open>undefined\<close>) is \<open>None\<close>;
  a configured value that is \<open>null\<close> or infinite is outside the model.
  Strings are byte strings (the UTF-8 form of the JavaScript string).
\<close>

text \<open>\<open>a / b * 16\<close> on operands that may be \<open>undefined\<close>; a zero divisor gives a
  non-finite result.\<close>

definition jsScaled :: "real option \<Rightarrow> real option \<Rightarrow> real option" where
  "jsScaled a b =
     (case a of
        None \<Rightarrow> None
      | Some u \<Rightarrow>
          (case b of
             None \<Rightarrow> None
           | Some v \<Rightarrow> if v = 0 then None else Some (u / v * 16)))"

text \<open>\<open>v || dflt\<close> on a number: \<open>undefined\<close>, \<open>NaN\<close> and \<open>0\<close> are falsy.\<close>

definition orNum :: "real option \<Rightarrow> real \<Rightarrow> real" where
  "orNum v dflt = (case v of None \<Rightarrow> dflt | Some u \<Rightarrow> if u = 0 then dflt else u)"

text \<open>\<open>v || dflt\<close> on a string: \<open>undefined\<close> and the empty string are falsy.\<close>

definition orStr :: "string option \<Rightarrow> string \<Rightarrow> string" where
  "orStr v dflt = (case v of None \<Rightarrow> dflt | Some u \<Rightarrow> if u = [] then dflt else u)"


section \<open>doorways.js: class Doorway\<close>

datatype wall = North | West

text \<open>
  The fields of a \<open>Doorway\<close> that its logic reads or writes. \<open>posX\<close>, \<open>posY\<close> are the
  source's \<open>x\<close>, \<open>y\<close>. \<open>pulseTime\<close> is never initialised by the constructor, so it starts
  \<open>undefined\<close>. \<open>closeTimeout\<close> is the handle of the pending \<open>setTimeout\<close>: \<open>Some r\<close> when a
  close callback is scheduled and will run in \<open>r\<close> milliseconds, \<open>None\<close> when the field is
  \<open>undefined\<close> or \<open>null\<close>. The constant fields used only for drawing and for the spatial
  grid (\<open>entityType\<close>, \<open>width\<close>, \<open>height\<close>, \<open>zHeight\<close>, \<open>z\<close>, \<open>showDebugInfo\<close>) are left out.
\<close>

record doorway =
  direction :: string
  targetScene :: "string option"
  posX :: real
  posY :: real
  isOpen :: bool
  opened :: bool
  closed :: bool
  activationCooldown :: real
  isWallDoorway :: bool
  wallSide :: "wall option"
  gridX :: "real option"
  gridY :: "real option"
  pulseTime :: "real option"
  closeTimeout :: "nat option"

definition Doorway :: "string \<Rightarrow> string option \<Rightarrow> real \<Rightarrow> real \<Rightarrow> doorway" where
  "Doorway dir target px py =
     \<lparr> direction = dir, targetScene = target, posX = px, posY = py,
       isOpen = False, opened = False, closed = False, activationCooldown = 0,
       isWallDoorway = False, wallSide = None, gridX = Some 0, gridY = Some 0,
       pulseTime = None, closeTimeout = None \<rparr>"

text \<open>The body of the callback given to \<open>setTimeout\<close> in \<open>update\<close>.\<close>

definition closeCallback :: "doorway \<Rightarrow> doorway" where
  "closeCallback d = d\<lparr>isOpen := False, closeTimeout := None\<rparr>"

text \<open>\<open>Doorway.update(deltaTime, isPlayerNear)\<close>. \<open>clearTimeout\<close> followed by the
  assignment of \<open>null\<close> leaves no pending callback; \<open>setTimeout(..., 800)\<close> schedules one
  800 ms ahead.\<close>

definition Doorway_update :: "real \<Rightarrow> bool \<Rightarrow> doorway \<Rightarrow> doorway" where
  "Doorway_update deltaTime isPlayerNear d0 =
     (let d = d0\<lparr>pulseTime := map_option (\<lambda>p. p + deltaTime) (pulseTime d0)\<rparr> in
      if isWallDoorway d then
        if isPlayerNear \<and> \<not> isOpen d then
          d\<lparr>isOpen := True, closeTimeout := None\<rparr>
        else if \<not> isPlayerNear \<and> isOpen d then
          (case closeTimeout d of
             None \<Rightarrow> d\<lparr>closeTimeout := Some 800\<rparr>
           | Some r \<Rightarrow> d)
        else d
      else d)"

text \<open>
  The browser's timer queue, as far as one doorway is concerned: \<open>elapse ms d\<close> is the
  doorway after \<open>ms\<close> milliseconds of wall-clock time in which no \<open>update\<close> runs. A pending
  callback whose delay has passed runs; otherwise its remaining delay shrinks.
\<close>

definition elapse :: "nat \<Rightarrow> doorway \<Rightarrow> doorway" where
  "elapse ms d =
     (case closeTimeout d of
        None \<Rightarrow> d
      | Some r \<Rightarrow> if r \<le> ms then closeCallback d else d\<lparr>closeTimeout := Some (r - ms)\<rparr>)"

text \<open>What happens to a doorway over time: a frame calls \<open>update\<close>, or time passes.\<close>

datatype door_event = Frame real bool | Wait nat

fun door_step :: "doorway \<Rightarrow> door_event \<Rightarrow> doorway" where
  "door_step d (Frame deltaTime isPlayerNear) = Doorway_update deltaTime isPlayerNear d"
| "door_step d (Wait ms) = elapse ms d"

definition door_run :: "door_event list \<Rightarrow> doorway \<Rightarrow> doorway" where
  "door_run evs d = foldl door_step d evs"

text \<open>\<open>Doorway.isPlayerColliding(playerX, playerY, cellWidth, cellHeight)\<close>; the two cell
  sizes are not used by the body. The player's coordinates are finite numbers.\<close>

definition isPlayerColliding :: "doorway \<Rightarrow> real \<Rightarrow> real \<Rightarrow> bool" where
  "isPlayerColliding d playerX playerY =
     (if isWallDoorway d \<and> wallSide d = Some North \<and> playerY > 5 then False
      else if isWallDoorway d \<and> wallSide d = Some West \<and> playerX > 5 then False
      else
        (case gridX d of
           None \<Rightarrow> False
         | Some gx \<Rightarrow>
             (case gridY d of
                None \<Rightarrow> False
              | Some gy \<Rightarrow>
                  (let dx = \<bar>gx - playerX\<bar>; dy = \<bar>gy - playerY\<bar>;
                       distance = sqrt (dx * dx + dy * dy)
                   in distance < 3))))"


section \<open>sceneData.js: the scene registry\<close>

text \<open>
  An entry of a scene's \<open>exits\<close> array. \<open>exit_posX\<close>, \<open>exit_posY\<close> are \<open>position.x\<close> and
  \<open>position.y\<close>, \<open>None\<close> when the exit has no \<open>position\<close> or the coordinate is missing.
\<close>

record exit_entry =
  exit_direction :: string
  exit_to :: "string option"
  exit_posX :: "real option"
  exit_posY :: "real option"
  exit_gridX :: "real option"
  exit_gridY :: "real option"
  exit_comingSoon :: bool

text \<open>A scene, as far as \<open>initDoorways\<close> reads it; \<open>scene_exits\<close> is \<open>None\<close> when the
  scene has no \<open>exits\<close> array.\<close>

record scene =
  scene_width :: "real option"
  scene_height :: "real option"
  scene_exits :: "exit_entry list option"

text \<open>The registry \<open>scenes\<close>, in the order of \<open>Object.keys\<close>.\<close>

type_synonym registry = "(string \<times> scene) list"




definition sanctumExit :: exit_entry where
  "sanctumExit =
     \<lparr> exit_direction = ''south'', exit_to = Some ''startRoom'',
       exit_posX = Some 400, exit_posY = Some 600,
       exit_gridX = Some 8, exit_gridY = Some 14, exit_comingSoon = False \<rparr>"

definition circuitSanctum :: scene where
  "circuitSanctum =
     \<lparr> scene_width = Some 800, scene_height = Some 600, scene_exits = Some [sanctumExit] \<rparr>"





section \<open>doorways.js: class DoorwayManager\<close>

definition cardinal :: "string \<Rightarrow> bool" where
  "cardinal dir = (dir = ''north'' \<or> dir = ''south'' \<or> dir = ''east'' \<or> dir = ''west'')"

text \<open>The body of \<open>scene.exits.forEach\<close> in \<open>initDoorways\<close>: the doorway made for one
  exit of the scene called \<open>sceneName\<close>. The flag \<open>comingSoon\<close> of the exit is not read.\<close>

definition exitDoorway :: "string \<Rightarrow> scene \<Rightarrow> exit_entry \<Rightarrow> doorway" where
  "exitDoorway sceneName sc ex =
     (let dir = exit_direction ex;
          gx = (case exit_gridX ex of Some g \<Rightarrow> Some g
                | None \<Rightarrow> jsScaled (exit_posX ex) (scene_width sc));
          gy = (case exit_gridY ex of Some g \<Rightarrow> Some g
                | None \<Rightarrow> jsScaled (exit_posY ex) (scene_height sc));
          d1 = (Doorway dir (exit_to ex) (orNum (exit_posX ex) 0) (orNum (exit_posY ex) 0))
                 \<lparr>gridX := gx, gridY := gy\<rparr>;
          d2 = (if cardinal dir then
                  d1\<lparr>isWallDoorway := True,
                     wallSide := (if dir = ''north'' \<or> dir = ''south'' then Some North
                                  else Some West)\<rparr>
                else d1);
          d3 = (if sceneName = ''startRoom'' \<and> dir = ''east'' then
                  d2\<lparr>wallSide := Some West, gridX := Some 0, gridY := Some (53 / 10)\<rparr>
                else d2);
          d4 = (if sceneName = ''neonPhylactery'' \<and> dir = ''west'' then
                  d3\<lparr>wallSide := Some West, gridX := Some 14, gridY := Some (63 / 10)\<rparr>
                else d3)
      in d4)"

record manager =
  doorwaysByScene :: "string \<rightharpoonup> doorway list"
  activeDoorways :: "doorway list"
  transitionCooldown :: real

text \<open>\<open>initDoorways\<close>: one array per scene name, filled from the scene's exits. The
  registration of each doorway in the spatial grid writes to the grid only and is left
  out.\<close>

definition sceneDoorways :: "string \<Rightarrow> scene \<Rightarrow> doorway list" where
  "sceneDoorways sceneName sc =
     (case scene_exits sc of
        None \<Rightarrow> []
      | Some exs \<Rightarrow> map (exitDoorway sceneName sc) exs)"

fun initDoorways :: "registry \<Rightarrow> (string \<rightharpoonup> doorway list) \<Rightarrow> (string \<rightharpoonup> doorway list)" where
  "initDoorways [] m = m"
| "initDoorways ((sceneName, sc) # rest) m =
     initDoorways rest (m(sceneName \<mapsto> sceneDoorways sceneName sc))"

text \<open>The constructor of \<open>DoorwayManager\<close>.\<close>

definition DoorwayManager :: "registry \<Rightarrow> manager" where
  "DoorwayManager reg =
     \<lparr> doorwaysByScene = initDoorways reg Map.empty, activeDoorways = [],
       transitionCooldown = 0 \<rparr>"

text \<open>
  The body of \<open>this.activeDoorways.forEach\<close> in \<open>DoorwayManager.update\<close>, run over the
  doorways in order with the cooldown \<open>c\<close>. The result is the doorways after their
  \<open>update\<close>, the cooldown after the loop, and the doorways for which
  \<open>sceneManager.loadScene(doorway.targetScene)\<close> was called, in call order.
\<close>

fun updateDoorways ::
  "real \<Rightarrow> real \<Rightarrow> real \<Rightarrow> doorway list \<Rightarrow> real \<Rightarrow> doorway list \<times> real \<times> doorway list" where
  "updateDoorways deltaTime playerX playerY [] c = ([], c, [])"
| "updateDoorways deltaTime playerX playerY (d # ds) c =
     (let isPlayerNear = isPlayerColliding d playerX playerY;
          d' = Doorway_update deltaTime isPlayerNear d;
          fire = (c \<le> 0 \<and> isPlayerNear \<and> \<not> isWallDoorway d');
          c' = (if fire then 1 / 2 else c);
          r = updateDoorways deltaTime playerX playerY ds c'
      in (d' # fst r, fst (snd r), (if fire then [d'] else []) @ snd (snd r)))"

text \<open>
  \<open>DoorwayManager.update(deltaTime, playerX, playerY, scene)\<close>. The scene manager is not
  part of these sources: \<open>currentScene\<close> is the id of the scene that
  \<open>sceneManager.getCurrentScene()\<close> returns, \<open>None\<close> when it returns nothing. The doorway
  objects are shared between \<open>doorwaysByScene\<close> and \<open>activeDoorways\<close>, so both hold the
  updated doorways. The second component lists the doorways whose target was given to
  \<open>loadScene\<close>.
\<close>

definition DoorwayManager_update ::
  "real \<Rightarrow> real \<Rightarrow> real \<Rightarrow> string option \<Rightarrow> manager \<Rightarrow> manager \<times> doorway list" where
  "DoorwayManager_update deltaTime playerX playerY currentScene m =
     (let c1 = (if transitionCooldown m > 0 then transitionCooldown m - deltaTime
                else transitionCooldown m);
          m1 = m\<lparr>transitionCooldown := c1\<rparr>
      in case currentScene of
           None \<Rightarrow> (m1, [])
         | Some sid \<Rightarrow>
             (case doorwaysByScene m1 sid of
                None \<Rightarrow> (m1\<lparr>activeDoorways := []\<rparr>, [])
              | Some ds \<Rightarrow>
                  (let r = updateDoorways deltaTime playerX playerY ds c1
                   in (m1\<lparr>doorwaysByScene := (doorwaysByScene m1)(sid \<mapsto> fst r),
                           activeDoorways := fst r,
                           transitionCooldown := fst (snd r)\<rparr>,
                       snd (snd r)))))"

text \<open>One call of \<open>DoorwayManager.update\<close> per animation frame.\<close>

record frame =
  f_deltaTime :: real
  f_playerX :: real
  f_playerY :: real
  f_currentScene :: "string option"

fun DoorwayManager_run :: "frame list \<Rightarrow> manager \<Rightarrow> manager \<times> doorway list" where
  "DoorwayManager_run [] m = (m, [])"
| "DoorwayManager_run (f # fs) m =
     (let r = DoorwayManager_update (f_deltaTime f) (f_playerX f) (f_playerY f)
                (f_currentScene f) m;
          r' = DoorwayManager_run fs (fst r)
      in (fst r', snd r @ snd r'))"





section \<open>sceneIntegration.js\<close>

text \<open>The module variable \<open>consumedKeys\<close>.\<close>

record consumed =
  ShiftE :: bool
  ShiftD :: bool
  ShiftS :: bool
  ShiftF :: bool

text \<open>
  \<open>handleSceneTransitions()\<close>. The input module and the scene manager are not part of
  these sources: \<open>isKeyPressed\<close> is what \<open>input.isKeyPressed\<close> answers during this call,
  and \<open>hasScene\<close> tells whether \<open>sceneManager.getCurrentScene()\<close> returns a scene. The
  second component lists the arguments of the calls of \<open>sceneManager.transitionTo\<close>, in
  call order.
\<close>

definition handleSceneTransitions ::
  "(string \<Rightarrow> bool) \<Rightarrow> bool \<Rightarrow> consumed \<Rightarrow> consumed \<times> string list" where
  "handleSceneTransitions isKeyPressed hasScene k =
     (if \<not> hasScene then (k, [])
      else
        (let fE = (isKeyPressed ''e'' \<and> isKeyPressed ''Shift'' \<and> \<not> ShiftE k);
             k1 = (if fE then k\<lparr>ShiftE := True\<rparr> else k);
             fD = (isKeyPressed ''d'' \<and> isKeyPressed ''Shift'' \<and> \<not> ShiftD k1);
             k2 = (if fD then k1\<lparr>ShiftD := True\<rparr> else k1);
             fS = (isKeyPressed ''s'' \<and> isKeyPressed ''Shift'' \<and> \<not> ShiftS k2);
             k3 = (if fS then k2\<lparr>ShiftS := True\<rparr> else k2);
             fF = (isKeyPressed ''f'' \<and> isKeyPressed ''Shift'' \<and> \<not> ShiftF k3);
             k4 = (if fF then k3\<lparr>ShiftF := True\<rparr> else k3)
         in (k4,
             (if fE then [''north''] else []) @ (if fD then [''south''] else []) @
             (if fS then [''west''] else []) @ (if fF then [''east''] else []))))"

text \<open>
  An entry of the portal system, with the fields that \<open>updateScene\<close> reads, and the scene
  it is registered for.
\<close>

record portal =
  portal_id :: string
  portal_scene :: string
  portal_direction :: string
  portal_targetScene :: string
  portal_gridX :: real
  portal_gridY :: real

text \<open>The test of \<open>updateScene\<close> on one portal:
  \<open>Math.max(Math.abs(portal.gridX - playerGridX), Math.abs(portal.gridY - playerGridY)) <= threshold\<close>.\<close>

definition withinThreshold :: "portal \<Rightarrow> real \<Rightarrow> real \<Rightarrow> real \<Rightarrow> bool" where
  "withinThreshold p playerGridX playerGridY threshold =
     (let dx = \<bar>portal_gridX p - playerGridX\<bar>; dy = \<bar>portal_gridY p - playerGridY\<bar>
      in max dx dy \<le> threshold)"

text \<open>Modelled from the spec: \<open>PortalSystem.getPortalsForScene\<close> (portalSystem.js is not
  among the sources), the portals registered for the given scene, in registration order.\<close>

definition getPortalsForScene :: "portal list \<Rightarrow> string \<Rightarrow> portal list" where
  "getPortalsForScene portals sceneId = filter (\<lambda>p. portal_scene p = sceneId) portals"

text \<open>Modelled from the spec: \<open>PortalSystem.getNearbyPortals\<close> (portalSystem.js is not
  among the sources), the identifiers of the portals of the given scene within
  \<open>max(|dx|, |dy|) <= threshold\<close> of the player.\<close>

definition getNearbyPortals :: "portal list \<Rightarrow> real \<Rightarrow> real \<Rightarrow> string \<Rightarrow> real \<Rightarrow> string list" where
  "getNearbyPortals portals playerGridX playerGridY sceneId threshold =
     map portal_id
       (filter (\<lambda>p. withinThreshold p playerGridX playerGridY threshold)
          (getPortalsForScene portals sceneId))"

definition startsWith :: "string \<Rightarrow> string \<Rightarrow> bool" where
  "startsWith s pre = (take (length pre) s = pre)"

text \<open>The table \<open>customProximityValues\<close> that \<open>updateScene\<close> fills from the portals of the
  start room.\<close>

definition customProximityValues :: "portal list \<Rightarrow> (string \<rightharpoonup> real)" where
  "customProximityValues scenePortals =
     foldl (\<lambda>cv p. if portal_direction p = ''north'' \<and> startsWith (portal_targetScene p) ''http''
                    then cv(portal_id p \<mapsto> 1 / 4) else cv)
       Map.empty scenePortals"

text \<open>The loop over \<open>scenePortals\<close> that stops at the first portal within its custom
  threshold; a table entry counts when it is truthy.\<close>

fun findCustomPortal :: "(string \<rightharpoonup> real) \<Rightarrow> real \<Rightarrow> real \<Rightarrow> portal list \<Rightarrow> string option" where
  "findCustomPortal cv playerGridX playerGridY [] = None"
| "findCustomPortal cv playerGridX playerGridY (p # ps) =
     (case cv (portal_id p) of
        None \<Rightarrow> findCustomPortal cv playerGridX playerGridY ps
      | Some threshold \<Rightarrow>
          if threshold \<noteq> 0 \<and> withinThreshold p playerGridX playerGridY threshold
          then Some (portal_id p)
          else findCustomPortal cv playerGridX playerGridY ps)"

text \<open>The player object, as \<open>updateScene\<close> reads it.\<close>

record player =
  player_x :: "real option"
  player_y :: "real option"
  player_gridX :: "real option"
  player_gridY :: "real option"
  player_z :: real

text \<open>The portal detection of \<open>updateScene\<close> for a player whose \<open>x\<close> and \<open>y\<close> are defined:
  the value of \<open>nearbyPortals\<close> before the transition is triggered.\<close>

definition nearbyPortals :: "portal list \<Rightarrow> string \<Rightarrow> real \<Rightarrow> real \<Rightarrow> string list" where
  "nearbyPortals portals sceneId playerGridX playerGridY =
     (let proximityThreshold = 1 / 2;
          found =
            (if sceneId = ''startRoom'' then
               (let scenePortals = getPortalsForScene portals sceneId
                in findCustomPortal (customProximityValues scenePortals)
                     playerGridX playerGridY scenePortals)
             else None)
      in case found of
           Some pid \<Rightarrow> [pid]
         | None \<Rightarrow> getNearbyPortals portals playerGridX playerGridY sceneId proximityThreshold)"

text \<open>The module state of sceneIntegration.js that \<open>updateScene\<close> changes.\<close>

record integration =
  consumedKeys :: consumed
  lastRenderTime :: int

text \<open>
  What one call of \<open>updateScene\<close> reads from its surroundings. The scene manager is asked
  for the current scene twice, first inside \<open>handleSceneTransitions\<close> and then by
  \<open>updateScene\<close> itself; a transition in between may change the answer, so both answers
  are inputs.
\<close>

record scene_input =
  in_isKeyPressed :: "string \<Rightarrow> bool"
  in_sceneAtPoll :: "string option"
  in_currentScene :: "string option"
  in_player :: "player option"
  in_forceRerender :: bool
  in_now :: int
  in_hasRenderer :: bool

text \<open>What one call of \<open>updateScene\<close> does to its surroundings: the calls of
  \<open>transitionTo\<close>, the portal given to \<open>transitionThroughPortal\<close>, and whether the scene
  was rendered.\<close>

record scene_effects =
  transitions :: "string list"
  portalTransition :: "string option"
  rendered :: bool

definition updateScene ::
  "portal list \<Rightarrow> scene_input \<Rightarrow> integration \<Rightarrow> integration \<times> scene_effects" where
  "updateScene portals inp st =
     (let h = handleSceneTransitions (in_isKeyPressed inp) (in_sceneAtPoll inp \<noteq> None)
                (consumedKeys st);
          st1 = st\<lparr>consumedKeys :=
                  \<lparr>ShiftE = False, ShiftD = False, ShiftS = False, ShiftF = False\<rparr>\<rparr>
      in case in_currentScene inp of
           None \<Rightarrow> (st1, \<lparr>transitions = snd h, portalTransition = None, rendered = False\<rparr>)
         | Some sceneId \<Rightarrow>
             (let entered =
                    (case in_player inp of
                       None \<Rightarrow> None
                     | Some pl \<Rightarrow>
                         (case player_x pl of
                            None \<Rightarrow> None
                          | Some x \<Rightarrow>
                              (case player_y pl of
                                 None \<Rightarrow> None
                               | Some y \<Rightarrow>
                                   (let playerGridX =
                                          (case player_gridX pl of Some g \<Rightarrow> g
                                           | None \<Rightarrow> of_int \<lfloor>x\<rfloor>);
                                        playerGridY =
                                          (case player_gridY pl of Some g \<Rightarrow> g
                                           | None \<Rightarrow> of_int \<lfloor>y\<rfloor>)
                                    in case nearbyPortals portals sceneId playerGridX playerGridY of
                                         [] \<Rightarrow> None
                                       | portalId # others \<Rightarrow>
                                           if player_z pl \<le> 1 / 10 then Some portalId
                                           else None))));
                  render = ((in_forceRerender inp \<or> in_now inp - lastRenderTime st1 > 16)
                            \<and> in_hasRenderer inp)
              in ((if render then st1\<lparr>lastRenderTime := in_now inp\<rparr> else st1),
                  \<lparr>transitions = snd h, portalTransition = entered, rendered = render\<rparr>)))"


section \<open>URLSearchParams\<close>

text \<open>
  The parts of the platform's \<open>URLSearchParams\<close> that \<open>enterPortal\<close> uses, after the URL
  standard's \<open>application/x-www-form-urlencoded\<close> parser and serializer. A parameter list
  is a list of name and value pairs. Decoded bytes are kept as they are (the standard
  replaces byte sequences that are not UTF-8).
\<close>

type_synonym params = "(string \<times> string) list"

definition hexValue :: "char \<Rightarrow> nat option" where
  "hexValue c =
     (let n = (of_char c :: nat)
      in if 48 \<le> n \<and> n \<le> 57 then Some (n - 48)
         else if 65 \<le> n \<and> n \<le> 70 then Some (n - 55)
         else if 97 \<le> n \<and> n \<le> 102 then Some (n - 87)
         else None)"

fun percentDecode :: "string \<Rightarrow> string" where
  "percentDecode [] = []"
| "percentDecode [c] = [c]"
| "percentDecode [c, d] = [c, d]"
| "percentDecode (c # h # l # rest) =
     (if c = CHR ''%'' then
        (case hexValue h of
           None \<Rightarrow> c # percentDecode (h # l # rest)
         | Some a \<Rightarrow>
             (case hexValue l of
                None \<Rightarrow> c # percentDecode (h # l # rest)
              | Some b \<Rightarrow> char_of (16 * a + b) # percentDecode rest))
      else c # percentDecode (h # l # rest))"

fun splitOn :: "char \<Rightarrow> string \<Rightarrow> string list" where
  "splitOn sep [] = [] # []"
| "splitOn sep (c # cs) =
     (if c = sep then [] # splitOn sep cs
      else (case splitOn sep cs of
              [] \<Rightarrow> [c] # []
            | w # ws \<Rightarrow> (c # w) # ws))"

definition plusToSpace :: "string \<Rightarrow> string" where
  "plusToSpace s = map (\<lambda>c. if c = CHR ''+'' then CHR '' '' else c) s"

text \<open>One \<open>name=value\<close> sequence of a query string.\<close>

definition parsePair :: "string \<Rightarrow> string \<times> string" where
  "parsePair sq =
     (let name = takeWhile (\<lambda>c. c \<noteq> CHR ''='') sq;
          val = drop 1 (dropWhile (\<lambda>c. c \<noteq> CHR ''='') sq)
      in (percentDecode (plusToSpace name), percentDecode (plusToSpace val)))"

text \<open>\<open>new URLSearchParams(init)\<close> for a string: a leading \<open>?\<close> is dropped, the rest is
  split on \<open>&\<close>, and empty sequences are skipped.\<close>

definition URLSearchParams :: "string \<Rightarrow> params" where
  "URLSearchParams init =
     (let s = (case init of c # cs \<Rightarrow> if c = CHR ''?'' then cs else init | [] \<Rightarrow> init)
      in map parsePair (filter (\<lambda>sq. sq \<noteq> []) (splitOn CHR ''&'' s)))"

text \<open>\<open>params.get(name)\<close>: the first value of the name, \<open>null\<close> when there is none.\<close>

fun getParam :: "params \<Rightarrow> string \<Rightarrow> string option" where
  "getParam [] name = None"
| "getParam ((k, v) # ps) name = (if k = name then Some v else getParam ps name)"

definition hexDigit :: "nat \<Rightarrow> char" where
  "hexDigit n = ''0123456789ABCDEF'' ! n"

text \<open>The serializer keeps ASCII letters and digits and \<open>* - . _\<close>, writes a space as
  \<open>+\<close>, and percent-encodes every other byte.\<close>

definition encodeByte :: "char \<Rightarrow> string" where
  "encodeByte c =
     (let n = (of_char c :: nat)
      in if n = 32 then ''+''
         else if n = 42 \<or> n = 45 \<or> n = 46 \<or> n = 95 \<or> (48 \<le> n \<and> n \<le> 57)
                 \<or> (65 \<le> n \<and> n \<le> 90) \<or> (97 \<le> n \<and> n \<le> 122)
         then [c]
         else [CHR ''%'', hexDigit (n div 16), hexDigit (n mod 16)])"

definition encodeString :: "string \<Rightarrow> string" where
  "encodeString s = concat (map encodeByte s)"

text \<open>\<open>params.toString()\<close>.\<close>

fun paramsToString :: "params \<Rightarrow> string" where
  "paramsToString [] = []"
| "paramsToString [(k, v)] = encodeString k @ ''='' @ encodeString v"
| "paramsToString ((k, v) # p # ps) =
     encodeString k @ ''='' @ encodeString v @ ''&'' @ paramsToString (p # ps)"


section \<open>vibePortalEntity.js: class VibePortalEntity\<close>

text \<open>The \<open>options\<close> object of the constructor; a field that is not given is \<open>None\<close>.\<close>

record options =
  opt_width :: "real option"
  opt_height :: "real option"
  opt_color :: "string option"
  opt_type :: "string option"
  opt_targetUrl :: "string option"
  opt_label :: "string option"
  opt_interactionDistance :: "real option"
  opt_entryDetectionRange :: "real option"

text \<open>
  The fields of a portal entity that its logic reads or writes. \<open>playerDistance\<close> is
  \<open>None\<close> for \<open>Infinity\<close>, \<open>lastEntryTime\<close> is the field \<open>_lastEntryTime\<close>. The particles and
  the drawing constants are left out: they feed the drawing code only.
\<close>

record vibePortal =
  vp_x :: real
  vp_y :: real
  vp_z :: real
  vp_width :: real
  vp_height :: real
  portalColor :: string
  portalType :: string
  isActive :: bool
  targetUrl :: string
  portalLabel :: string
  animationTime :: real
  interactionDistance :: real
  isPlayerNearby :: bool
  entryDetectionRange :: real
  playerDistance :: "real option"
  lastEntryTime :: "int option"

definition VibePortalEntity :: "real \<Rightarrow> real \<Rightarrow> real \<Rightarrow> options \<Rightarrow> vibePortal" where
  "VibePortalEntity x y z opts =
     \<lparr> vp_x = x, vp_y = y, vp_z = z,
       vp_width = orNum (opt_width opts) 2, vp_height = orNum (opt_height opts) 2,
       portalColor = orStr (opt_color opts) ''#00ff00'',
       portalType = orStr (opt_type opts) ''exit'',
       isActive = True,
       targetUrl = orStr (opt_targetUrl opts) ''https://portal.pieter.com'',
       portalLabel = orStr (opt_label opts) ''ENTER VIBEVERSE'',
       animationTime = 0,
       interactionDistance = orNum (opt_interactionDistance opts) 3,
       isPlayerNearby = False,
       entryDetectionRange = orNum (opt_entryDetectionRange opts) (3 / 2),
       playerDistance = None,
       lastEntryTime = None \<rparr>"

text \<open>What \<open>enterPortal\<close> reads from the page when it is called: \<open>Date.now()\<close>,
  \<open>window.location.hostname\<close> and \<open>window.selfUsername\<close>.\<close>

record page =
  page_now :: int
  page_hostname :: string
  page_selfUsername :: "string option"

text \<open>What a call of \<open>enterPortal\<close> that is not suppressed leaves behind: the
  \<open>portal-entry\<close> event (its \<open>portalType\<close> and \<open>targetUrl\<close>), and the callback scheduled
  one second ahead, which holds on to \<open>nextPage\<close>.\<close>

record entry =
  event_portalType :: string
  event_targetUrl :: string
  nextPage :: string

text \<open>\<open>enterPortal()\<close> up to the call of \<open>setTimeout\<close>. The result is \<open>None\<close> when the call
  returns early because the last entry is less than two seconds old.\<close>

definition enterPortal :: "page \<Rightarrow> vibePortal \<Rightarrow> vibePortal \<times> entry option" where
  "enterPortal pg p =
     (if (case lastEntryTime p of
            None \<Rightarrow> False
          | Some t \<Rightarrow> t \<noteq> 0 \<and> page_now pg - t < 2000)
      then (p, None)
      else
        (let p' = p\<lparr>lastEntryTime := Some (page_now pg)\<rparr>;
             currentDomain = orStr (Some (page_hostname pg)) ''alchemistslair.local'';
             ps = [(''portal'', ''true'')]
                  @ (if portalType p' = ''exit'' then [(''ref'', currentDomain)] else [])
                  @ (case page_selfUsername pg of
                       None \<Rightarrow> []
                     | Some u \<Rightarrow> if u = [] then [] else [(''username'', u)]);
             paramString = paramsToString ps;
             url = targetUrl p' @ (if paramString \<noteq> [] then ''?'' @ paramString else [])
         in (p', Some \<lparr> event_portalType = portalType p', event_targetUrl = url,
                        nextPage = url \<rparr>)))"

text \<open>What the scheduled callback does: it sets \<open>window.location.href\<close>, or shows a
  message, or does nothing.\<close>

datatype outcome = Navigate string | ShowMessage string | Nothing

text \<open>The callback that \<open>enterPortal\<close> gives to \<open>setTimeout\<close>, run with the portal and
  with \<open>window.location.search\<close> as they are when it fires.\<close>

definition enterPortal_timeout :: "string \<Rightarrow> vibePortal \<Rightarrow> entry \<Rightarrow> outcome" where
  "enterPortal_timeout search p e =
     (if portalType p = ''exit'' then Navigate (nextPage e)
      else if portalType p = ''start'' then
        (case getParam (URLSearchParams search) ''ref'' of
           None \<Rightarrow> ShowMessage ''No destination found for this portal''
         | Some refUrl \<Rightarrow>
             if refUrl = [] then ShowMessage ''No destination found for this portal''
             else
               (let url = (if \<not> startsWith refUrl ''http://'' \<and> \<not> startsWith refUrl ''https://''
                           then ''https://'' @ refUrl else refUrl);
                    newParams = filter (\<lambda>kv. fst kv \<noteq> ''ref'') (URLSearchParams search);
                    paramString = paramsToString newParams
                in Navigate (url @ (if paramString \<noteq> [] then ''?'' @ paramString else []))))
      else Nothing)"

text \<open>\<open>update(deltaTime, player)\<close>; \<open>pl\<close> is the player's position, \<open>None\<close> when no player
  is given.\<close>

definition VibePortalEntity_update ::
  "page \<Rightarrow> real \<Rightarrow> (real \<times> real) option \<Rightarrow> vibePortal \<Rightarrow> vibePortal \<times> entry option" where
  "VibePortalEntity_update pg deltaTime pl p0 =
     (let p = p0\<lparr>animationTime := animationTime p0 + deltaTime * (1 / 1000)\<rparr>
      in case pl of
           None \<Rightarrow> (p\<lparr>playerDistance := None, isPlayerNearby := False\<rparr>, None)
         | Some xy \<Rightarrow>
             (let dx = fst xy - vp_x p; dy = snd xy - vp_y p;
                  distance = sqrt (dx * dx + dy * dy);
                  p1 = p\<lparr>playerDistance := Some distance,
                         isPlayerNearby := (distance \<le> interactionDistance p)\<rparr>
              in if isActive p1 \<and> distance \<le> entryDetectionRange p1 then enterPortal pg p1
                 else (p1, None)))"


section \<open>Inputs used in the examples\<close>

text \<open>A wall door as \<open>initDoorways\<close> makes it for a north exit.\<close>

definition wallDoor :: doorway where
  "wallDoor = (Doorway ''north'' (Some ''circuitSanctum'') 200 0)
                \<lparr>isWallDoorway := True, wallSide := Some North\<rparr>"

text \<open>The door of the circuit sanctum in the shipped registry.\<close>

definition sanctumDoor :: doorway where
  "sanctumDoor = exitDoorway ''circuitSanctum'' circuitSanctum sanctumExit"

text \<open>A floor door at the origin of the grid.\<close>

definition floorDoor :: doorway where
  "floorDoor = Doorway ''portal'' (Some ''startRoom'') 0 0"

text \<open>A registry with one room whose only exit is a floor portal (its direction is none
  of the four wall directions) that is flagged \<open>comingSoon\<close> and has no target.\<close>

definition lobbyExit :: exit_entry where
  "lobbyExit =
     \<lparr> exit_direction = ''portal'', exit_to = None,
       exit_posX = Some 25, exit_posY = Some 25,
       exit_gridX = Some 1, exit_gridY = Some 1, exit_comingSoon = True \<rparr>"

definition lobby :: scene where
  "lobby = \<lparr> scene_width = Some 400, scene_height = Some 300, scene_exits = Some [lobbyExit] \<rparr>"

definition lobbyRegistry :: registry where
  "lobbyRegistry = [(''lobby'', lobby)]"

definition lobbyFrame :: frame where
  "lobbyFrame = \<lparr> f_deltaTime = 1 / 60, f_playerX = 1, f_playerY = 1,
                  f_currentScene = Some ''lobby'' \<rparr>"

text \<open>A registry in which the two specially placed doors are configured elsewhere.\<close>

definition movedEastExit :: exit_entry where
  "movedEastExit =
     \<lparr> exit_direction = ''east'', exit_to = Some ''neonPhylactery'',
       exit_posX = Some 400, exit_posY = Some 150,
       exit_gridX = Some 14, exit_gridY = Some 7, exit_comingSoon = False \<rparr>"

definition movedWestExit :: exit_entry where
  "movedWestExit =
     \<lparr> exit_direction = ''west'', exit_to = Some ''startRoom'',
       exit_posX = Some 0, exit_posY = Some 300,
       exit_gridX = None, exit_gridY = None, exit_comingSoon = False \<rparr>"

definition movedStart :: scene where
  "movedStart =
     \<lparr> scene_width = Some 400, scene_height = Some 300, scene_exits = Some [movedEastExit] \<rparr>"

definition movedNeon :: scene where
  "movedNeon =
     \<lparr> scene_width = Some 800, scene_height = Some 600, scene_exits = Some [movedWestExit] \<rparr>"

definition movedRegistry :: registry where
  "movedRegistry = [(''startRoom'', movedStart), (''neonPhylactery'', movedNeon)]"





text \<open>A frame in which Shift and E are reported as pressed, and the state of the module
  when it is loaded.\<close>

definition heldNorth :: scene_input where
  "heldNorth = \<lparr> in_isKeyPressed = (\<lambda>k. k = ''e'' \<or> k = ''Shift''),
                 in_sceneAtPoll = Some ''startRoom'', in_currentScene = Some ''startRoom'',
                 in_player = None, in_forceRerender = False, in_now = 0,
                 in_hasRenderer = True \<rparr>"

definition idle :: integration where
  "idle = \<lparr> consumedKeys = \<lparr>ShiftE = False, ShiftD = False, ShiftS = False, ShiftF = False\<rparr>,
            lastRenderTime = 0 \<rparr>"

text \<open>Constructor options with no field given, and the portals made from them.\<close>

definition noOptions :: options where
  "noOptions = \<lparr> opt_width = None, opt_height = None, opt_color = None, opt_type = None,
                 opt_targetUrl = None, opt_label = None, opt_interactionDistance = None,
                 opt_entryDetectionRange = None \<rparr>"

definition exitPortal :: vibePortal where
  "exitPortal = VibePortalEntity 14 10 0 noOptions"

definition startPortal :: vibePortal where
  "startPortal = VibePortalEntity 20 15 0 (noOptions\<lparr>opt_type := Some ''start''\<rparr>)"

definition widePortal :: vibePortal where
  "widePortal = VibePortalEntity 14 10 0 (noOptions\<lparr>opt_entryDetectionRange := Some 5\<rparr>)"

text \<open>A page served from \<open>mygame.io\<close>, and a page with an empty host name (a local
  file).\<close>

definition gamePage :: page where
  "gamePage = \<lparr> page_now = 1700000000000, page_hostname = ''mygame.io'',
                page_selfUsername = None \<rparr>"

definition localPage :: page where
  "localPage = \<lparr> page_now = 1700000000000, page_hostname = [], page_selfUsername = None \<rparr>"

text \<open>The query of a URL that has no fragment: the part from the first \<open>?\<close> on.\<close>

definition urlSearch :: "string \<Rightarrow> string" where
  "urlSearch url = dropWhile (\<lambda>c. c \<noteq> CHR ''?'') url"


section \<open>Wall doors: opening and closing\<close>

lemma Doorway_update_fixed:
  "isWallDoorway (Doorway_update dt near d) = isWallDoorway d"
  "direction (Doorway_update dt near d) = direction d"
  "targetScene (Doorway_update dt near d) = targetScene d"
  by (simp_all add: Doorway_update_def Let_def split: option.splits)

text \<open>A wall door is open after every frame in which the player is near.\<close>

lemma Doorway_update_opens: "isWallDoorway d \<Longrightarrow> isOpen (Doorway_update dt True d)"
  by (simp add: Doorway_update_def Let_def)

text \<open>A frame in which the player is near leaves the pending close of an open door in
  place: the branch that clears the timer is taken for a closed door only.\<close>

lemma Doorway_update_keeps_timer:
  "isOpen d \<Longrightarrow> closeTimeout (Doorway_update dt True d) = closeTimeout d"
  by (simp add: Doorway_update_def Let_def)

text \<open>Only the scheduled callback closes a door, and a close is scheduled only in a frame
  in which the player is away.\<close>

lemma Doorway_update_never_closes: "isOpen d \<Longrightarrow> isOpen (Doorway_update dt near d)"
  by (simp add: Doorway_update_def Let_def split: option.splits)

text \<open>
  Claim C1: a wall door opens in the frame in which the player comes near, and closes
  only after 800 ms without the player; a frame with the player near before the 800 ms are
  over cancels the pending close. The code opens the door at once, but it does not cancel:
  the door opens in the first frame; the player steps away and a close is scheduled 800 ms
  ahead; the player is back 100 ms later, and the close is still pending with 700 ms to
  go; when these have passed the door is closed, with the player beside it.
\<close>

theorem Doorway_close_survives_return:
  "isOpen (door_run [Frame (1 / 60) True] wallDoor)
   \<and> closeTimeout (door_run [Frame (1 / 60) True, Frame (1 / 60) False] wallDoor) = Some 800
   \<and> closeTimeout (door_run [Frame (1 / 60) True, Frame (1 / 60) False, Wait 100,
                             Frame (1 / 60) True] wallDoor) = Some 700
   \<and> \<not> isOpen (door_run [Frame (1 / 60) True, Frame (1 / 60) False, Wait 100,
                         Frame (1 / 60) True, Wait 700] wallDoor)"
  by (simp add: door_run_def wallDoor_def Doorway_def Doorway_update_def elapse_def
        closeCallback_def Let_def)


section \<open>Proximity of a doorway\<close>

text \<open>
  Claim C3, as stated: the proximity flag of a doorway is exactly "Euclidean grid distance
  below 3", and nothing else affects it. The door of the circuit sanctum is at (8, 14) on
  the north wall plane; a player at (8, 13) is at distance 1, and the flag is false,
  because the player's row is beyond 5.
\<close>

theorem isPlayerColliding_not_distance_only:
  "gridX sanctumDoor = Some 8 \<and> gridY sanctumDoor = Some 14
   \<and> sqrt ((8 - 8)\<^sup>2 + (14 - 13)\<^sup>2) < (3 :: real)
   \<and> \<not> isPlayerColliding sanctumDoor 8 13"
  by (simp add: sanctumDoor_def sanctumExit_def exitDoorway_def Doorway_def cardinal_def
        isPlayerColliding_def Let_def)

text \<open>
  Claim C3, amended: the flag is true exactly when the Euclidean grid distance is below 3
  (so false at distance 3) and, for a wall door, the player is not beyond row 5 of a door
  on the north wall plane nor beyond column 5 of a door on the west wall plane. For a floor
  door the distance alone decides. A doorway whose position is not a finite number is never
  near.
\<close>

theorem isPlayerColliding_iff:
  "(gridX d = Some gx \<and> gridY d = Some gy \<longrightarrow>
      isPlayerColliding d px py =
        (sqrt ((gx - px)\<^sup>2 + (gy - py)\<^sup>2) < 3
         \<and> \<not> (isWallDoorway d \<and> wallSide d = Some North \<and> py > 5)
         \<and> \<not> (isWallDoorway d \<and> wallSide d = Some West \<and> px > 5)))
   \<and> (gridX d = Some gx \<and> gridY d = Some gy \<and> \<not> isWallDoorway d \<longrightarrow>
        isPlayerColliding d px py = (sqrt ((gx - px)\<^sup>2 + (gy - py)\<^sup>2) < 3))
   \<and> (gridX d = None \<or> gridY d = None \<longrightarrow> \<not> isPlayerColliding d px py)"
  by (auto simp: isPlayerColliding_def Let_def power2_eq_square split: option.splits)

theorem isPlayerColliding_iff_witness:
  "gridX floorDoor = Some 0 \<and> gridY floorDoor = Some 0 \<and> \<not> isWallDoorway floorDoor
   \<and> isPlayerColliding floorDoor 2 0
   \<and> sqrt ((0 - 3)\<^sup>2 + (0 - 0)\<^sup>2) = (3 :: real)
   \<and> \<not> isPlayerColliding floorDoor 3 0"
proof -
  have pos: "gridX floorDoor = Some 0 \<and> gridY floorDoor = Some 0 \<and> \<not> isWallDoorway floorDoor"
    by (simp add: floorDoor_def Doorway_def)
  have two: "sqrt ((0 - 2)\<^sup>2 + (0 - 0)\<^sup>2) < (3 :: real)"
    by (simp add: real_less_lsqrt)
  have three: "sqrt ((0 - 3)\<^sup>2 + (0 - 0)\<^sup>2) = (3 :: real)"
    by simp
  show ?thesis
    using pos two three
      isPlayerColliding_iff [of floorDoor 0 0 2 0]
      isPlayerColliding_iff [of floorDoor 0 0 3 0]
    by simp
qed


section \<open>The doorways made from the registry\<close>


lemma exitDoorway_direction: "direction (exitDoorway n sc ex) = exit_direction ex"
  by (simp add: exitDoorway_def Let_def Doorway_def)


lemma initDoorways_lookup:
  "initDoorways reg m n = Some ds \<Longrightarrow>
     m n = Some ds \<or> (\<exists>sc. (n, sc) \<in> set reg \<and> ds = sceneDoorways n sc)"
  by (induction reg m rule: initDoorways.induct) (auto split: if_splits)

lemma initDoorways_other: "n \<notin> fst ` set reg \<Longrightarrow> initDoorways reg m n = m n"
  by (induction reg m rule: initDoorways.induct) auto

lemma initDoorways_distinct:
  "distinct (map fst reg) \<Longrightarrow> (n, sc) \<in> set reg \<Longrightarrow>
     initDoorways reg m n = Some (sceneDoorways n sc)"
proof (induction reg arbitrary: m)
  case Nil
  then show ?case by simp
next
  case (Cons a rest)
  obtain k s where a: "a = (k, s)" by (cases a)
  show ?case
  proof (cases "(n, sc) = (k, s)")
    case True
    with Cons.prems(1) a have "n \<notin> fst ` set rest" by auto
    with True a show ?thesis by (simp add: initDoorways_other)
  next
    case False
    with Cons.prems a have "distinct (map fst rest)" "(n, sc) \<in> set rest" by auto
    then have "initDoorways rest (m(k \<mapsto> sceneDoorways k s)) n = Some (sceneDoorways n sc)"
      by (rule Cons.IH)
    with a show ?thesis by simp
  qed
qed

text \<open>Every doorway of the manager comes from an exit of the registry.\<close>

lemma DoorwayManager_lookup:
  assumes "doorwaysByScene (DoorwayManager reg) n = Some ds" and "d \<in> set ds"
  shows "\<exists>sc exs ex. (n, sc) \<in> set reg \<and> scene_exits sc = Some exs \<and> ex \<in> set exs
            \<and> d = exitDoorway n sc ex"
proof -
  from assms(1) obtain sc where sc: "(n, sc) \<in> set reg" "ds = sceneDoorways n sc"
    using initDoorways_lookup [of reg Map.empty n ds] by (auto simp: DoorwayManager_def)
  with assms(2) show ?thesis
    by (auto simp: sceneDoorways_def split: option.splits)
qed

lemma exitDoorway_startRoom_east:
  "exit_direction ex = ''east'' \<Longrightarrow>
     wallSide (exitDoorway ''startRoom'' sc ex) = Some West
     \<and> gridX (exitDoorway ''startRoom'' sc ex) = Some 0
     \<and> gridY (exitDoorway ''startRoom'' sc ex) = Some (53 / 10)"
  by (simp add: exitDoorway_def Let_def cardinal_def)

lemma exitDoorway_neonPhylactery_west:
  "exit_direction ex = ''west'' \<Longrightarrow>
     wallSide (exitDoorway ''neonPhylactery'' sc ex) = Some West
     \<and> gridX (exitDoorway ''neonPhylactery'' sc ex) = Some 14
     \<and> gridY (exitDoorway ''neonPhylactery'' sc ex) = Some (63 / 10)"
  by (simp add: exitDoorway_def Let_def cardinal_def)

text \<open>
  Claim C10: whatever the registry, \<open>initDoorways\<close> puts the east door of the start room on
  the west wall plane at (0, 5.3), and the west door of the neon phylactery on the west wall
  plane at (14.0, 6.3); the grid position and the pixel position configured on the exit do
  not matter. The first two parts say so for the doorway made from any such exit, the
  next two for every such doorway the manager holds; the last says that the manager holds
  one doorway per exit, in order, when the names of the registry are distinct (as the keys
  of an object are).
\<close>

theorem initDoorways_special_doors:
  "(exit_direction ex = ''east'' \<longrightarrow>
      wallSide (exitDoorway ''startRoom'' sc ex) = Some West
      \<and> gridX (exitDoorway ''startRoom'' sc ex) = Some 0
      \<and> gridY (exitDoorway ''startRoom'' sc ex) = Some (53 / 10))
   \<and> (exit_direction ex = ''west'' \<longrightarrow>
      wallSide (exitDoorway ''neonPhylactery'' sc ex) = Some West
      \<and> gridX (exitDoorway ''neonPhylactery'' sc ex) = Some 14
      \<and> gridY (exitDoorway ''neonPhylactery'' sc ex) = Some (63 / 10))
   \<and> (doorwaysByScene (DoorwayManager reg) ''startRoom'' = Some ds \<and> d \<in> set ds
      \<and> direction d = ''east'' \<longrightarrow>
        wallSide d = Some West \<and> gridX d = Some 0 \<and> gridY d = Some (53 / 10))
   \<and> (doorwaysByScene (DoorwayManager reg) ''neonPhylactery'' = Some ds \<and> d \<in> set ds
      \<and> direction d = ''west'' \<longrightarrow>
        wallSide d = Some West \<and> gridX d = Some 14 \<and> gridY d = Some (63 / 10))
   \<and> (distinct (map fst reg) \<and> (n, sc) \<in> set reg \<and> scene_exits sc = Some exs \<longrightarrow>
        doorwaysByScene (DoorwayManager reg) n = Some (map (exitDoorway n sc) exs))"
proof -
  have east: "exit_direction ex = ''east'' \<longrightarrow>
      wallSide (exitDoorway ''startRoom'' sc ex) = Some West
      \<and> gridX (exitDoorway ''startRoom'' sc ex) = Some 0
      \<and> gridY (exitDoorway ''startRoom'' sc ex) = Some (53 / 10)"
    using exitDoorway_startRoom_east by blast
  have west: "exit_direction ex = ''west'' \<longrightarrow>
      wallSide (exitDoorway ''neonPhylactery'' sc ex) = Some West
      \<and> gridX (exitDoorway ''neonPhylactery'' sc ex) = Some 14
      \<and> gridY (exitDoorway ''neonPhylactery'' sc ex) = Some (63 / 10)"
    using exitDoorway_neonPhylactery_west by blast
  have start: "wallSide d = Some West \<and> gridX d = Some 0 \<and> gridY d = Some (53 / 10)"
    if a: "doorwaysByScene (DoorwayManager reg) ''startRoom'' = Some ds \<and> d \<in> set ds
      \<and> direction d = ''east''"
  proof -
    from a obtain s e where "d = exitDoorway ''startRoom'' s e"
      using DoorwayManager_lookup by blast
    with a have "d = exitDoorway ''startRoom'' s e" "exit_direction e = ''east''"
      by (simp_all add: exitDoorway_direction)
    then show ?thesis by (simp add: exitDoorway_startRoom_east)
  qed
  have neon: "wallSide d = Some West \<and> gridX d = Some 14 \<and> gridY d = Some (63 / 10)"
    if a: "doorwaysByScene (DoorwayManager reg) ''neonPhylactery'' = Some ds \<and> d \<in> set ds
      \<and> direction d = ''west''"
  proof -
    from a obtain s e where "d = exitDoorway ''neonPhylactery'' s e"
      using DoorwayManager_lookup by blast
    with a have "d = exitDoorway ''neonPhylactery'' s e" "exit_direction e = ''west''"
      by (simp_all add: exitDoorway_direction)
    then show ?thesis by (simp add: exitDoorway_neonPhylactery_west)
  qed
  have every: "doorwaysByScene (DoorwayManager reg) n = Some (map (exitDoorway n sc) exs)"
    if "distinct (map fst reg) \<and> (n, sc) \<in> set reg \<and> scene_exits sc = Some exs"
    using that initDoorways_distinct [of reg n sc Map.empty]
    by (simp add: DoorwayManager_def sceneDoorways_def)
  show ?thesis
    using east west start neon every by blast
qed

theorem initDoorways_special_doors_witness:
  "exit_gridX movedEastExit = Some 14 \<and> exit_gridY movedEastExit = Some 7
   \<and> exit_direction movedEastExit = ''east''
   \<and> exit_gridX movedWestExit = None \<and> exit_direction movedWestExit = ''west''
   \<and> doorwaysByScene (DoorwayManager movedRegistry) ''startRoom''
       = Some [exitDoorway ''startRoom'' movedStart movedEastExit]
   \<and> gridX (exitDoorway ''startRoom'' movedStart movedEastExit) = Some 0
   \<and> gridY (exitDoorway ''startRoom'' movedStart movedEastExit) = Some (53 / 10)
   \<and> wallSide (exitDoorway ''startRoom'' movedStart movedEastExit) = Some West
   \<and> doorwaysByScene (DoorwayManager movedRegistry) ''neonPhylactery''
       = Some [exitDoorway ''neonPhylactery'' movedNeon movedWestExit]
   \<and> gridX (exitDoorway ''neonPhylactery'' movedNeon movedWestExit) = Some 14
   \<and> gridY (exitDoorway ''neonPhylactery'' movedNeon movedWestExit) = Some (63 / 10)
   \<and> wallSide (exitDoorway ''neonPhylactery'' movedNeon movedWestExit) = Some West"
proof -
  have reg: "distinct (map fst movedRegistry)"
    "(''startRoom'', movedStart) \<in> set movedRegistry"
    "(''neonPhylactery'', movedNeon) \<in> set movedRegistry"
    "scene_exits movedStart = Some [movedEastExit]"
    "scene_exits movedNeon = Some [movedWestExit]"
    by (simp_all add: movedRegistry_def movedStart_def movedNeon_def)
  have ex: "exit_gridX movedEastExit = Some 14" "exit_gridY movedEastExit = Some 7"
    "exit_direction movedEastExit = ''east''"
    "exit_gridX movedWestExit = None" "exit_direction movedWestExit = ''west''"
    by (simp_all add: movedEastExit_def movedWestExit_def)
  show ?thesis
    using reg ex
      initDoorways_special_doors [of movedEastExit movedStart movedRegistry
        "[exitDoorway ''startRoom'' movedStart movedEastExit]"
        "exitDoorway ''startRoom'' movedStart movedEastExit"
        "''startRoom''" "[movedEastExit]"]
      initDoorways_special_doors [of movedWestExit movedNeon movedRegistry
        "[exitDoorway ''neonPhylactery'' movedNeon movedWestExit]"
        "exitDoorway ''neonPhylactery'' movedNeon movedWestExit"
        "''neonPhylactery''" "[movedWestExit]"]
    by simp
qed


section \<open>The transition cooldown\<close>

text \<open>While the cooldown is positive the loop over the doorways calls nothing and leaves
  the cooldown alone.\<close>

lemma updateDoorways_blocked:
  "0 < c \<Longrightarrow> snd (updateDoorways dt px py ds c) = (c, [])"
  by (induction ds) (simp_all add: Let_def)

text \<open>The loop either calls nothing and leaves the cooldown alone, or it started with a
  cooldown that had run out, calls \<open>loadScene\<close> once and ends with a cooldown of half a
  second.\<close>

lemma updateDoorways_cooldown:
  "snd (snd (updateDoorways dt px py ds c)) = [] \<and> fst (snd (updateDoorways dt px py ds c)) = c
   \<or> c \<le> 0 \<and> length (snd (snd (updateDoorways dt px py ds c))) = 1
       \<and> fst (snd (updateDoorways dt px py ds c)) = 1 / 2"
proof (induction ds)
  case Nil
  show ?case by simp
next
  case (Cons d ds)
  show ?case
  proof (cases "c \<le> 0 \<and> isPlayerColliding d px py \<and> \<not> isWallDoorway d")
    case True
    then show ?thesis
      using updateDoorways_blocked [of "1 / 2" dt px py ds]
      by (simp add: Let_def Doorway_update_fixed)
  next
    case False
    then show ?thesis using Cons.IH by (auto simp add: Let_def Doorway_update_fixed)
  qed
qed

text \<open>A doorway whose target is loaded is a floor door that the player is near.\<close>

lemma updateDoorways_calls:
  "d \<in> set (snd (snd (updateDoorways dt px py ds c))) \<Longrightarrow>
     \<not> isWallDoorway d
     \<and> (\<exists>e \<in> set ds. d = Doorway_update dt True e \<and> isPlayerColliding e px py)"
  by (induction ds arbitrary: c) (auto simp add: Let_def Doorway_update_fixed split: if_splits)


text \<open>
  Claim C2: no floor portal has its scene loaded while the cooldown is positive; right
  after a transition the cooldown is exactly 0.5 s; from then on every update lowers it by
  exactly \<open>deltaTime\<close> until it has reached or passed 0. For one call of
  \<open>DoorwayManager.update\<close> from any state, with \<open>calls\<close> the doorways whose target was
  loaded:
  \<^item> inside the loop, a positive cooldown blocks every doorway;
  \<^item> if the cooldown is still positive after this frame's decrement, nothing is loaded and
    the cooldown has dropped by exactly \<open>deltaTime\<close>;
  \<^item> if something is loaded, the cooldown had run out (after this frame's decrement), one
    scene is loaded, by a floor door, and the cooldown is 1/2 afterwards;
  \<^item> if nothing is loaded, a positive cooldown has dropped by exactly \<open>deltaTime\<close> and a
    cooldown that had run out is unchanged.
\<close>

theorem DoorwayManager_update_cooldown:
  assumes "DoorwayManager_update dt px py cur m = (m', calls)"
  shows "(\<forall>ds c. 0 < c \<longrightarrow> snd (updateDoorways dt px py ds c) = (c, []))
       \<and> (0 < transitionCooldown m \<and> dt < transitionCooldown m \<longrightarrow>
            calls = [] \<and> transitionCooldown m' = transitionCooldown m - dt)
       \<and> (calls \<noteq> [] \<longrightarrow>
            (if 0 < transitionCooldown m then transitionCooldown m - dt
             else transitionCooldown m) \<le> 0
            \<and> length calls = 1 \<and> (\<forall>d \<in> set calls. \<not> isWallDoorway d)
            \<and> transitionCooldown m' = 1 / 2)
       \<and> (calls = [] \<and> 0 < transitionCooldown m \<longrightarrow>
            transitionCooldown m' = transitionCooldown m - dt)
       \<and> (calls = [] \<and> transitionCooldown m \<le> 0 \<longrightarrow>
            transitionCooldown m' = transitionCooldown m)"
proof -
  define c1 where
    "c1 = (if 0 < transitionCooldown m then transitionCooldown m - dt else transitionCooldown m)"
  have loop: "\<forall>ds c. 0 < c \<longrightarrow> snd (updateDoorways dt px py ds c) = (c, [])"
    by (simp add: updateDoorways_blocked)
  have rest: "(0 < transitionCooldown m \<and> dt < transitionCooldown m \<longrightarrow>
            calls = [] \<and> transitionCooldown m' = transitionCooldown m - dt)
       \<and> (calls \<noteq> [] \<longrightarrow>
            (if 0 < transitionCooldown m then transitionCooldown m - dt
             else transitionCooldown m) \<le> 0
            \<and> length calls = 1 \<and> (\<forall>d \<in> set calls. \<not> isWallDoorway d)
            \<and> transitionCooldown m' = 1 / 2)
       \<and> (calls = [] \<and> 0 < transitionCooldown m \<longrightarrow>
            transitionCooldown m' = transitionCooldown m - dt)
       \<and> (calls = [] \<and> transitionCooldown m \<le> 0 \<longrightarrow>
            transitionCooldown m' = transitionCooldown m)"
  proof (cases cur)
    case None
    with assms show ?thesis by (auto simp: DoorwayManager_update_def Let_def)
  next
    case (Some sid)
    show ?thesis
    proof (cases "doorwaysByScene m sid")
      case None
      with Some assms show ?thesis by (auto simp: DoorwayManager_update_def Let_def)
    next
      case (Some ds)
      from assms \<open>cur = Some sid\<close> Some
      have calls: "calls = snd (snd (updateDoorways dt px py ds c1))"
        and cool: "transitionCooldown m' = fst (snd (updateDoorways dt px py ds c1))"
        by (auto simp: DoorwayManager_update_def Let_def c1_def)
      have blocked: "0 < c1 \<Longrightarrow> calls = [] \<and> transitionCooldown m' = c1"
        using updateDoorways_blocked [of c1 dt px py ds] calls cool by simp
      have nowall: "\<forall>d \<in> set calls. \<not> isWallDoorway d"
        using updateDoorways_calls calls by blast
      from updateDoorways_cooldown [of dt px py ds c1] calls cool
      have "calls = [] \<and> transitionCooldown m' = c1
            \<or> c1 \<le> 0 \<and> length calls = 1 \<and> transitionCooldown m' = 1 / 2"
        by simp
      with blocked nowall show ?thesis
        unfolding c1_def by (auto split: if_splits)
    qed
  qed
  from loop rest show ?thesis by (rule conjI)
qed

text \<open>In the lobby the player stands on the floor portal: the first frame loads a scene
  and leaves a cooldown of 1/2; the second frame, 1/60 s later, loads nothing and leaves
  1/2 - 1/60.\<close>

theorem DoorwayManager_update_cooldown_witness:
  "length (snd (DoorwayManager_run [lobbyFrame] (DoorwayManager lobbyRegistry))) = 1
   \<and> transitionCooldown (fst (DoorwayManager_run [lobbyFrame] (DoorwayManager lobbyRegistry)))
       = 1 / 2
   \<and> snd (DoorwayManager_update (1 / 60) 1 1 (Some ''lobby'')
            (fst (DoorwayManager_run [lobbyFrame] (DoorwayManager lobbyRegistry)))) = []
   \<and> transitionCooldown (fst (DoorwayManager_update (1 / 60) 1 1 (Some ''lobby'')
            (fst (DoorwayManager_run [lobbyFrame] (DoorwayManager lobbyRegistry)))))
       = 1 / 2 - 1 / 60"
proof -
  let ?m0 = "DoorwayManager lobbyRegistry"
  let ?r1 = "DoorwayManager_update (1 / 60) 1 1 (Some ''lobby'') ?m0"
  let ?r2 = "DoorwayManager_update (1 / 60) 1 1 (Some ''lobby'') (fst ?r1)"
  have run: "DoorwayManager_run [lobbyFrame] ?m0 = (fst ?r1, snd ?r1)"
    by (simp add: lobbyFrame_def Let_def)
  have first: "snd ?r1 \<noteq> []"
    by (simp add: lobbyRegistry_def lobby_def lobbyExit_def DoorwayManager_def
          sceneDoorways_def exitDoorway_def Doorway_def cardinal_def orNum_def
          DoorwayManager_update_def Let_def isPlayerColliding_def Doorway_update_def)
  have start: "transitionCooldown ?m0 = 0"
    by (simp add: DoorwayManager_def)
  from DoorwayManager_update_cooldown [of "1 / 60" 1 1 "Some ''lobby''" ?m0 "fst ?r1" "snd ?r1"]
    first
  have one: "length (snd ?r1) = 1 \<and> transitionCooldown (fst ?r1) = 1 / 2"
    by simp
  from DoorwayManager_update_cooldown [of "1 / 60" 1 1 "Some ''lobby''" "fst ?r1" "fst ?r2" "snd ?r2"]
    one
  have two: "snd ?r2 = [] \<and> transitionCooldown (fst ?r2) = 1 / 2 - 1 / 60"
    by simp
  from run one two show ?thesis by simp
qed


section \<open>Which doorways navigate\<close>










text \<open>Outside the data model: an exit with a direction other than the four becomes a
  floor door, and \<open>update\<close> follows it although it is flagged \<open>comingSoon\<close> and has no
  target. What keeps an exit from being followed is its direction alone.\<close>

lemma floor_exit_is_followed:
  "exit_comingSoon lobbyExit \<and> exit_to lobbyExit = None
   \<and> \<not> cardinal (exit_direction lobbyExit)
   \<and> map targetScene (snd (DoorwayManager_run [lobbyFrame] (DoorwayManager lobbyRegistry)))
       = [None]"
  by (simp add: lobbyRegistry_def lobby_def lobbyExit_def lobbyFrame_def DoorwayManager_def
        sceneDoorways_def exitDoorway_def Doorway_def cardinal_def orNum_def
        DoorwayManager_update_def Let_def isPlayerColliding_def Doorway_update_def)




section \<open>Portal detection\<close>

lemma customProximityValues_quarter_aux:
  assumes "\<forall>k t. cv k = Some t \<longrightarrow> t = (1 / 4 :: real)"
    and "foldl (\<lambda>cv p. if portal_direction p = ''north''
                            \<and> startsWith (portal_targetScene p) ''http''
                         then cv(portal_id p \<mapsto> 1 / 4) else cv) cv ps k = Some t"
  shows "t = 1 / 4"
  using assms
proof (induction ps arbitrary: cv)
  case Nil
  then show ?case by simp
next
  case (Cons a ps)
  let ?cv = "if portal_direction a = ''north'' \<and> startsWith (portal_targetScene a) ''http''
             then cv(portal_id a \<mapsto> 1 / 4) else cv"
  have "\<forall>k t. ?cv k = Some t \<longrightarrow> t = (1 / 4 :: real)"
    using Cons.prems(1) by (auto split: if_splits)
  moreover from Cons.prems(2)
  have "foldl (\<lambda>cv p. if portal_direction p = ''north''
                           \<and> startsWith (portal_targetScene p) ''http''
                        then cv(portal_id p \<mapsto> 1 / 4) else cv) ?cv ps k = Some t"
    by simp
  ultimately show ?case by (rule Cons.IH)
qed

text \<open>Every custom threshold is 0.25.\<close>

lemma customProximityValues_quarter: "customProximityValues ps k = Some t \<Longrightarrow> t = 1 / 4"
  unfolding customProximityValues_def
  using customProximityValues_quarter_aux [of Map.empty] by simp

lemma findCustomPortal_Some:
  "findCustomPortal cv px py ps = Some pid \<Longrightarrow>
     \<exists>p \<in> set ps. \<exists>t. portal_id p = pid \<and> cv pid = Some t \<and> withinThreshold p px py t"
  by (induction ps) (auto split: option.splits if_splits)

lemma withinThreshold_mono:
  "withinThreshold p px py t \<Longrightarrow> t \<le> t' \<Longrightarrow> withinThreshold p px py t'"
  by (simp add: withinThreshold_def Let_def)

lemma getNearbyPortals_iff:
  "pid \<in> set (getNearbyPortals ps px py sid t) \<longleftrightarrow>
     (\<exists>p \<in> set ps. portal_id p = pid \<and> portal_scene p = sid
        \<and> max \<bar>portal_gridX p - px\<bar> \<bar>portal_gridY p - py\<bar> \<le> t)"
  by (auto simp: getNearbyPortals_def getPortalsForScene_def withinThreshold_def Let_def)

text \<open>Whatever \<open>updateScene\<close> detects is a portal of the scene within 0.5 of the player in
  both coordinates; a custom threshold only narrows this.\<close>

lemma nearbyPortals_sound:
  assumes "pid \<in> set (nearbyPortals ps sid px py)"
  shows "\<exists>p \<in> set ps. portal_id p = pid \<and> portal_scene p = sid
        \<and> max \<bar>portal_gridX p - px\<bar> \<bar>portal_gridY p - py\<bar> \<le> 1 / 2"
proof (cases "sid = ''startRoom'' \<and>
    findCustomPortal (customProximityValues (getPortalsForScene ps sid)) px py
      (getPortalsForScene ps sid) \<noteq> None")
  case True
  then obtain q where q: "findCustomPortal (customProximityValues (getPortalsForScene ps sid))
      px py (getPortalsForScene ps sid) = Some q"
    by blast
  with True assms have "pid = q" by (simp add: nearbyPortals_def Let_def)
  from findCustomPortal_Some [OF q] obtain p t where
    p: "p \<in> set (getPortalsForScene ps sid)" "portal_id p = q"
       "customProximityValues (getPortalsForScene ps sid) q = Some t" "withinThreshold p px py t"
    by blast
  then have "t = 1 / 4" using customProximityValues_quarter by blast
  with p(4) have "withinThreshold p px py (1 / 4)" by simp
  then have "withinThreshold p px py (1 / 2)" by (rule withinThreshold_mono) simp
  with p \<open>pid = q\<close> show ?thesis
    by (auto simp: getPortalsForScene_def withinThreshold_def Let_def)
next
  case False
  then have "nearbyPortals ps sid px py = getNearbyPortals ps px py sid (1 / 2)"
    by (auto simp: nearbyPortals_def Let_def)
  with assms show ?thesis by (simp add: getNearbyPortals_iff)
qed








section \<open>The Shift chords\<close>

text \<open>Every call of \<open>updateScene\<close> leaves all four flags cleared.\<close>

lemma updateScene_clears:
  "consumedKeys (fst (updateScene ps inp st)) =
     \<lparr>ShiftE = False, ShiftD = False, ShiftS = False, ShiftF = False\<rparr>"
  by (simp add: updateScene_def Let_def split: option.splits list.splits)

text \<open>Within one call each direction is triggered at most once.\<close>

lemma handleSceneTransitions_distinct:
  "distinct (snd (handleSceneTransitions isKeyPressed hasScene k))"
  by (simp add: handleSceneTransitions_def Let_def)

text \<open>
  Claim C8: while a Shift chord is held over consecutive frames, the transition is
  triggered at most once per key press, and the flags are cleared every frame. The flags
  are cleared every frame, and so they never block the next one: with Shift and E reported
  as pressed in two frames in a row, \<open>transitionTo('north')\<close> is called in the first frame,
  the flags are back to their initial values after it, and \<open>transitionTo('north')\<close> is
  called again in the second frame.
\<close>

theorem held_chord_triggers_every_frame:
  "transitions (snd (updateScene [] heldNorth idle)) = [''north'']
   \<and> consumedKeys (fst (updateScene [] heldNorth idle)) = consumedKeys idle
   \<and> transitions (snd (updateScene [] heldNorth (fst (updateScene [] heldNorth idle))))
       = [''north'']"
  by (simp add: updateScene_def heldNorth_def idle_def handleSceneTransitions_def Let_def)


section \<open>Entering a portal\<close>

lemma enterPortal_type: "enterPortal pg p = (p', r) \<Longrightarrow> portalType p' = portalType p"
  by (auto simp: enterPortal_def Let_def split: if_splits)

lemma enterPortal_ranges:
  "entryDetectionRange (fst (enterPortal pg p)) = entryDetectionRange p"
  "interactionDistance (fst (enterPortal pg p)) = interactionDistance p"
  by (simp_all add: enterPortal_def Let_def split: option.splits)

lemma paramsToString_portal:
  "paramsToString ((''portal'', ''true'') # (''ref'', h) # us) =
     ''portal=true&ref='' @ encodeString h @ (if us = [] then [] else ''&'' @ paramsToString us)"
  by (cases us) (auto simp: encodeString_def encodeByte_def)

text \<open>
  Claim C6, as stated: the outbound URL of an exit portal always carries a \<open>ref\<close>
  parameter equal to the current host name. On a page whose host name is empty the
  \<open>ref\<close> parameter of the URL is \<open>alchemistslair.local\<close>.
\<close>

theorem exit_ref_not_hostname:
  "portalType exitPortal = ''exit'' \<and> page_hostname localPage = []
   \<and> map_option nextPage (snd (enterPortal localPage exitPortal))
       = Some ''https://portal.pieter.com?portal=true&ref=alchemistslair.local''
   \<and> map_option (\<lambda>e. getParam (URLSearchParams (urlSearch (nextPage e))) ''ref'')
        (snd (enterPortal localPage exitPortal))
       \<noteq> Some (Some (page_hostname localPage))"
  by (simp add: enterPortal_def localPage_def exitPortal_def VibePortalEntity_def noOptions_def
        orStr_def Let_def encodeString_def encodeByte_def urlSearch_def URLSearchParams_def
        parsePair_def plusToSpace_def)

text \<open>
  Claim C6, amended. For an entry through an exit portal (a call of \<open>enterPortal\<close> that the
  two second pause does not suppress) the outbound URL is the portal's \<open>targetUrl\<close> followed
  by \<open>?portal=true&ref=\<close> and the form-encoded current host name, or the form-encoded
  \<open>alchemistslair.local\<close> when the host name is empty, followed by \<open>&username=\<close> and the
  user name when one is set; the callback navigates to this URL. A start portal on a page
  with the query \<open>?ref=foo.com&x=1\<close> navigates to \<open>https://foo.com?x=1\<close>.
\<close>

theorem enterPortal_urls:
  "(portalType p = ''exit'' \<and> enterPortal pg p = (p', Some e) \<longrightarrow>
      nextPage e =
        targetUrl p @ ''?portal=true&ref=''
          @ encodeString (if page_hostname pg = [] then ''alchemistslair.local''
                          else page_hostname pg)
          @ (case page_selfUsername pg of
               None \<Rightarrow> []
             | Some u \<Rightarrow> if u = [] then [] else ''&username='' @ encodeString u)
      \<and> enterPortal_timeout search p' e = Navigate (nextPage e))
   \<and> (portalType q = ''start'' \<longrightarrow>
        enterPortal_timeout ''?ref=foo.com&x=1'' q e' = Navigate ''https://foo.com?x=1'')"
proof -
  have url: "nextPage e =
        targetUrl p @ ''?portal=true&ref=''
          @ encodeString (if page_hostname pg = [] then ''alchemistslair.local''
                          else page_hostname pg)
          @ (case page_selfUsername pg of
               None \<Rightarrow> []
             | Some u \<Rightarrow> if u = [] then [] else ''&username='' @ encodeString u)"
    if a: "portalType p = ''exit'' \<and> enterPortal pg p = (p', Some e)"
    using a
    by (auto simp: enterPortal_def Let_def orStr_def paramsToString_portal encodeString_def
          encodeByte_def split: if_splits option.splits)
  have nav: "enterPortal_timeout search p' e = Navigate (nextPage e)"
    if a: "portalType p = ''exit'' \<and> enterPortal pg p = (p', Some e)"
  proof -
    from a have "portalType p' = ''exit''" using enterPortal_type by metis
    then show ?thesis by (simp add: enterPortal_timeout_def)
  qed
  have start: "enterPortal_timeout ''?ref=foo.com&x=1'' q e' = Navigate ''https://foo.com?x=1''"
    if "portalType q = ''start''"
    using that
    by (simp add: enterPortal_timeout_def URLSearchParams_def parsePair_def plusToSpace_def
          startsWith_def encodeString_def encodeByte_def)
  show ?thesis using url nav start by blast
qed

theorem enterPortal_urls_witness:
  "portalType exitPortal = ''exit'' \<and> portalType startPortal = ''start''
   \<and> map_option nextPage (snd (enterPortal gamePage exitPortal))
       = Some ''https://portal.pieter.com?portal=true&ref=mygame.io''
   \<and> enterPortal_timeout [] (fst (enterPortal gamePage exitPortal))
        (the (snd (enterPortal gamePage exitPortal)))
       = Navigate ''https://portal.pieter.com?portal=true&ref=mygame.io''
   \<and> enterPortal_timeout ''?ref=foo.com&x=1'' startPortal
        (the (snd (enterPortal gamePage startPortal)))
       = Navigate ''https://foo.com?x=1''"
proof -
  have types: "portalType exitPortal = ''exit''" "portalType startPortal = ''start''"
    by (simp_all add: exitPortal_def startPortal_def VibePortalEntity_def noOptions_def orStr_def)
  have target: "targetUrl exitPortal = ''https://portal.pieter.com''"
    by (simp add: exitPortal_def VibePortalEntity_def noOptions_def orStr_def)
  have entered: "enterPortal gamePage exitPortal
      = (fst (enterPortal gamePage exitPortal), Some (the (snd (enterPortal gamePage exitPortal))))"
    by (simp add: enterPortal_def exitPortal_def VibePortalEntity_def Let_def)
  have some: "snd (enterPortal gamePage exitPortal)
      = Some (the (snd (enterPortal gamePage exitPortal)))"
    by (simp add: enterPortal_def exitPortal_def VibePortalEntity_def Let_def)
  have host: "page_hostname gamePage = ''mygame.io''" "page_selfUsername gamePage = None"
    "encodeString ''mygame.io'' = ''mygame.io''"
    by (simp_all add: gamePage_def encodeString_def encodeByte_def)
  from enterPortal_urls [of exitPortal gamePage "fst (enterPortal gamePage exitPortal)"
      "the (snd (enterPortal gamePage exitPortal))" "[]" startPortal
      "the (snd (enterPortal gamePage startPortal))"]
    types target entered host
  have "nextPage (the (snd (enterPortal gamePage exitPortal)))
          = ''https://portal.pieter.com?portal=true&ref=mygame.io''
        \<and> enterPortal_timeout [] (fst (enterPortal gamePage exitPortal))
            (the (snd (enterPortal gamePage exitPortal)))
          = Navigate ''https://portal.pieter.com?portal=true&ref=mygame.io''
        \<and> enterPortal_timeout ''?ref=foo.com&x=1'' startPortal
            (the (snd (enterPortal gamePage startPortal)))
          = Navigate ''https://foo.com?x=1''"
    by simp
  moreover have "map_option nextPage (snd (enterPortal gamePage exitPortal))
      = Some (nextPage (the (snd (enterPortal gamePage exitPortal))))"
    using some by (metis option.simps(9))
  ultimately show ?thesis using types by simp
qed

text \<open>
  Claim C7: when a start portal is entered on a page whose URL has no \<open>ref\<close> parameter, the
  player gets a message and the page does not navigate. An entry is a call of
  \<open>enterPortal\<close> that the two second pause does not suppress; \<open>search\<close> is the query of the
  page when the scheduled callback runs. The callback then shows the message, which is
  not a navigation.
\<close>

theorem start_portal_without_ref:
  assumes "portalType p = ''start''"
    and "enterPortal pg p = (p', Some e)"
    and "getParam (URLSearchParams search) ''ref'' = None"
  shows "enterPortal_timeout search p' e = ShowMessage ''No destination found for this portal''
         \<and> (\<forall>url. enterPortal_timeout search p' e \<noteq> Navigate url)"
  using assms enterPortal_type [OF assms(2)]
  by (simp add: enterPortal_timeout_def)

theorem start_portal_without_ref_witness:
  "portalType startPortal = ''start''
   \<and> snd (enterPortal gamePage startPortal) \<noteq> None
   \<and> getParam (URLSearchParams ''?portal=true&x=1'') ''ref'' = None
   \<and> enterPortal_timeout ''?portal=true&x=1'' (fst (enterPortal gamePage startPortal))
        (the (snd (enterPortal gamePage startPortal)))
       = ShowMessage ''No destination found for this portal''"
proof -
  have type: "portalType startPortal = ''start''"
    by (simp add: startPortal_def VibePortalEntity_def noOptions_def orStr_def)
  have entered: "enterPortal gamePage startPortal
      = (fst (enterPortal gamePage startPortal), Some (the (snd (enterPortal gamePage startPortal))))"
    by (simp add: enterPortal_def startPortal_def VibePortalEntity_def Let_def)
  then have some: "snd (enterPortal gamePage startPortal) \<noteq> None"
    by (metis option.distinct(1) snd_conv)
  have noref: "getParam (URLSearchParams ''?portal=true&x=1'') ''ref'' = None"
    by (simp add: URLSearchParams_def parsePair_def plusToSpace_def)
  from start_portal_without_ref [OF type entered noref] type some noref
  show ?thesis by simp
qed


section \<open>The two ranges of a portal\<close>

text \<open>
  Claim C9, as stated: after construction \<open>entryDetectionRange <= interactionDistance\<close>,
  for every combination of options. With \<open>entryDetectionRange: 5\<close> and no
  \<open>interactionDistance\<close> the portal has an entry range of 5 and an interaction distance
  of 3.
\<close>

theorem wide_entry_range:
  "entryDetectionRange widePortal = 5 \<and> interactionDistance widePortal = 3
   \<and> \<not> entryDetectionRange widePortal \<le> interactionDistance widePortal"
  by (simp add: widePortal_def VibePortalEntity_def noOptions_def orNum_def)

text \<open>
  Claim C9, amended: the constructor stores \<open>options.entryDetectionRange || 1.5\<close> and
  \<open>options.interactionDistance || 3\<close> and compares nothing. The invariant holds when
  neither option is given, and in general exactly when the two stored values satisfy it;
  \<open>update\<close> changes neither field.
\<close>

theorem VibePortalEntity_ranges:
  "entryDetectionRange (VibePortalEntity x y z opts) = orNum (opt_entryDetectionRange opts) (3 / 2)
   \<and> interactionDistance (VibePortalEntity x y z opts) = orNum (opt_interactionDistance opts) 3
   \<and> (opt_entryDetectionRange opts = None \<and> opt_interactionDistance opts = None \<longrightarrow>
        entryDetectionRange (VibePortalEntity x y z opts)
          \<le> interactionDistance (VibePortalEntity x y z opts))
   \<and> entryDetectionRange (fst (VibePortalEntity_update pg dt pl p)) = entryDetectionRange p
   \<and> interactionDistance (fst (VibePortalEntity_update pg dt pl p)) = interactionDistance p"
  by (simp add: VibePortalEntity_def orNum_def VibePortalEntity_update_def Let_def
        enterPortal_ranges split: option.splits)

theorem VibePortalEntity_ranges_witness:
  "opt_entryDetectionRange noOptions = None \<and> opt_interactionDistance noOptions = None
   \<and> entryDetectionRange (VibePortalEntity 14 10 0 noOptions) = 3 / 2
   \<and> interactionDistance (VibePortalEntity 14 10 0 noOptions) = 3
   \<and> entryDetectionRange (VibePortalEntity 14 10 0 noOptions)
       \<le> interactionDistance (VibePortalEntity 14 10 0 noOptions)"
  using VibePortalEntity_ranges [of 14 10 0 noOptions gamePage 16 None exitPortal]
  by (simp add: noOptions_def orNum_def)

end
